theory Spec2Isabelle
  imports Main
begin

section \<open>Data model\<close>

text \<open>
  The record store of \<^verbatim>\<open>src/backend/setup_database.py\<close>: every table is a list of rows in
  storage order. Columns with a \<^verbatim>\<open>CHECK(... IN (...))\<close> constraint are datatypes, nullable
  columns are options, identifiers and counts are Python integers, timestamps are the ISO
  strings the handlers write. Columns that no modelled handler reads or writes
  (coordinates, ratings, distances and the like) are left out.
\<close>

type_synonym timestamp = string

datatype location_status = LocActive | LocInactive | LocTemporary

datatype user_status = UserActive | UserInactive | UserSuspended

datatype vehicle_status = Available | InUse | Maintenance | Retired

datatype booking_status =
  Pending | Accepted | DriverArriving | Ongoing | Completed | Cancelled | NoShow

datatype trip_status = TripOngoing | TripCompleted | TripCancelled

record location =
  loc_id :: int
  loc_status :: location_status

text \<open>A user row joined with its role: \<open>u_role\<close> is \<^verbatim>\<open>roles.name\<close>.\<close>

record user =
  u_id :: int
  u_role :: string
  u_status :: user_status

record vehicle =
  v_id :: int
  v_status :: vehicle_status
  v_driver_id :: "int option"

record booking =
  b_id :: int
  b_code :: string
  b_user_id :: int
  b_from_location_id :: int
  b_to_location_id :: int
  b_status :: booking_status
  b_driver_id :: "int option"
  b_vehicle_id :: "int option"
  b_notes :: "string option"
  b_passenger_count :: int
  b_created_at :: timestamp
  b_updated_at :: "timestamp option"
  b_accepted_at :: "timestamp option"
  b_started_at :: "timestamp option"
  b_completed_at :: "timestamp option"
  b_cancelled_at :: "timestamp option"
  b_cancellation_reason :: "string option"
  b_cancelled_by :: "int option"

record trip =
  t_id :: int
  t_booking_id :: "int option"
  t_driver_id :: int
  t_vehicle_id :: int
  t_start_time :: timestamp
  t_end_time :: "timestamp option"
  t_status :: trip_status
  t_created_at :: timestamp

record notification =
  n_user_id :: int
  n_title :: string
  n_message :: string
  n_type :: string
  n_priority :: string
  n_created_at :: timestamp

text \<open>An audit row, without the client address and the clock reading of \<^verbatim>\<open>log_audit\<close>.\<close>

record audit =
  a_user_id :: int
  a_action :: string
  a_entity_type :: string
  a_entity_id :: "int option"
  a_old_value :: "string option"
  a_new_value :: "string option"

text \<open>
  \<open>bookings_seq\<close> and \<open>trips_seq\<close> are the \<^verbatim>\<open>sqlite_sequence\<close> entries of the two
  \<^verbatim>\<open>AUTOINCREMENT\<close> keys that the handlers read back through \<^verbatim>\<open>lastrowid\<close>.
\<close>

record database =
  locations :: "location list"
  users :: "user list"
  vehicles :: "vehicle list"
  bookings :: "booking list"
  bookings_seq :: int
  trips :: "trip list"
  trips_seq :: int
  notifications :: "notification list"
  audit_log :: "audit list"

text \<open>
  What a handler can end with besides its response: an \<^verbatim>\<open>HTTPException\<close> it raises
  itself (status code and detail), or the \<^verbatim>\<open>sqlite3.IntegrityError\<close> of a violated
  \<^verbatim>\<open>UNIQUE\<close> constraint, which no handler catches. In the spec's taxonomy status 404 is
  \<open>NotFound\<close>, 400 is \<open>InvalidTransition\<close>, 403 is \<open>Forbidden\<close>.
\<close>

datatype error = HTTPException int string | IntegrityError string

section \<open>The connection manager\<close>

text \<open>
  A websocket is an object compared by identity; \<open>send_fails\<close> tells for which
  connections \<^verbatim>\<open>send_json\<close> raises (the peer went away). What reaches the network is
  returned as a list of events.
\<close>

type_synonym websocket = nat

record ConnectionManager =
  active_connections :: "websocket list"
  driver_connections :: "int \<rightharpoonup> websocket"

datatype 'm send_event = Delivered websocket 'm | SendFailed websocket 'm

definition connect ::
  "ConnectionManager \<Rightarrow> websocket \<Rightarrow> int option \<Rightarrow> string option \<Rightarrow> ConnectionManager" where
  "connect m websocket uid role =
     (let m1 = m\<lparr>active_connections := active_connections m @ [websocket]\<rparr>
      in case uid of
           None \<Rightarrow> m1
         | Some i \<Rightarrow>
             if role = Some ''driver'' \<and> i \<noteq> 0
             then m1\<lparr>driver_connections := (driver_connections m1)(i \<mapsto> websocket)\<rparr>
             else m1)"

definition disconnect :: "ConnectionManager \<Rightarrow> websocket \<Rightarrow> ConnectionManager" where
  "disconnect m websocket =
     \<lparr>active_connections =
        (if websocket \<in> set (active_connections m)
         then remove1 websocket (active_connections m) else active_connections m),
      driver_connections =
        (\<lambda>d. if driver_connections m d = Some websocket then None
             else driver_connections m d)\<rparr>"

text \<open>The first loop of \<^verbatim>\<open>broadcast\<close>: the events and \<^verbatim>\<open>dead_connections\<close>.\<close>

fun broadcast_sends ::
  "(websocket \<Rightarrow> bool) \<Rightarrow> 'm \<Rightarrow> websocket list \<Rightarrow> 'm send_event list \<times> websocket list" where
  "broadcast_sends send_fails message [] = ([], [])"
| "broadcast_sends send_fails message (connection # rest) =
     (let (events, dead_connections) = broadcast_sends send_fails message rest
      in if send_fails connection
         then (SendFailed connection message # events, connection # dead_connections)
         else (Delivered connection message # events, dead_connections))"

definition broadcast ::
  "(websocket \<Rightarrow> bool) \<Rightarrow> ConnectionManager \<Rightarrow> 'm \<Rightarrow> 'm send_event list \<times> ConnectionManager" where
  "broadcast send_fails m message =
     (let (events, dead_connections) =
            broadcast_sends send_fails message (active_connections m)
      in (events, fold (\<lambda>conn acc. disconnect acc conn) dead_connections m))"

definition send_to_driver ::
  "(websocket \<Rightarrow> bool) \<Rightarrow> ConnectionManager \<Rightarrow> int \<Rightarrow> 'm \<Rightarrow> 'm send_event list" where
  "send_to_driver send_fails m driver_id message =
     (case driver_connections m driver_id of
        None \<Rightarrow> []
      | Some ws \<Rightarrow> if send_fails ws then [SendFailed ws message] else [Delivered ws message])"

fun delivered_to :: "'m send_event \<Rightarrow> websocket option" where
  "delivered_to (Delivered ws _) = Some ws"
| "delivered_to (SendFailed _ _) = None"

fun attempted_on :: "'m send_event \<Rightarrow> websocket" where
  "attempted_on (Delivered ws _) = ws"
| "attempted_on (SendFailed ws _) = ws"

section \<open>Storage helpers\<close>

text \<open>
  \<^verbatim>\<open>INTEGER PRIMARY KEY AUTOINCREMENT\<close>: the new key is one more than the largest key
  the table holds or has ever held.
\<close>

definition next_rowid :: "int \<Rightarrow> int list \<Rightarrow> int" where
  "next_rowid seq ids = fold max ids seq + 1"

text \<open>\<^verbatim>\<open>UPDATE bookings SET ... WHERE id = ?\<close> and \<^verbatim>\<open>UPDATE trips SET ... WHERE ...\<close>.\<close>

definition update_bookings :: "int \<Rightarrow> (booking \<Rightarrow> booking) \<Rightarrow> database \<Rightarrow> database" where
  "update_bookings booking_id f db =
     db\<lparr>bookings := map (\<lambda>b. if b_id b = booking_id then f b else b) (bookings db)\<rparr>"

definition update_trips :: "(trip \<Rightarrow> bool) \<Rightarrow> (trip \<Rightarrow> trip) \<Rightarrow> database \<Rightarrow> database" where
  "update_trips cond f db = db\<lparr>trips := map (\<lambda>t. if cond t then f t else t) (trips db)\<rparr>"

definition log_audit ::
  "database \<Rightarrow> int \<Rightarrow> string \<Rightarrow> string \<Rightarrow> int option \<Rightarrow> string option \<Rightarrow> string option
     \<Rightarrow> database" where
  "log_audit db user_id action entity_type entity_id old_value new_value =
     db\<lparr>audit_log := audit_log db @
        [\<lparr>a_user_id = user_id, a_action = action, a_entity_type = entity_type,
          a_entity_id = entity_id, a_old_value = old_value, a_new_value = new_value\<rparr>]\<rparr>"

fun status_text :: "booking_status \<Rightarrow> string" where
  "status_text Pending = ''pending''"
| "status_text Accepted = ''accepted''"
| "status_text DriverArriving = ''driver_arriving''"
| "status_text Ongoing = ''ongoing''"
| "status_text Completed = ''completed''"
| "status_text Cancelled = ''cancelled''"
| "status_text NoShow = ''no_show''"

section \<open>Rider handlers\<close>

text \<open>
  The handlers are modelled after the \<^verbatim>\<open>require_role\<close> dependency has resolved the
  acting user. A handler that raises never reaches \<^verbatim>\<open>commit\<close>, so it returns the
  database it was given. The clock reading \<open>now\<close> and, for \<^verbatim>\<open>create_booking\<close>, the
  generated \<open>booking_code\<close> (\<^verbatim>\<open>SHU\<close>, the date, six random hex digits) and the row \<open>pick\<close>
  of the auto-assignment query are arguments.
\<close>

record BookingRequest =
  from_location_id :: int
  to_location_id :: int
  notes' :: "string option"
  passenger_count :: int

datatype message = NewBooking int string

text \<open>\<^verbatim>\<open>SELECT id FROM locations WHERE id IN (?, ?) AND status = 'active'\<close>\<close>

definition select_active_locations :: "database \<Rightarrow> int \<Rightarrow> int \<Rightarrow> location list" where
  "select_active_locations db from_id to_id =
     filter (\<lambda>l. (loc_id l = from_id \<or> loc_id l = to_id) \<and> loc_status l = LocActive)
       (locations db)"

text \<open>
  The auto-assignment query: users joined with their vehicles, restricted to active
  drivers and available vehicles, \<^verbatim>\<open>LIMIT 1\<close>. The query has no \<^verbatim>\<open>ORDER BY\<close>, so which of
  the matching rows \<^verbatim>\<open>fetchone\<close> returns is the query planner's choice: \<open>available_pairs\<close>
  lists the matching rows and the argument \<open>pick\<close> of \<open>select_available_driver\<close> is the
  planner's choice among them, so that every matching row can be the one returned.
\<close>

definition available_pairs :: "database \<Rightarrow> (int \<times> int) list" where
  "available_pairs db =
     concat (map (\<lambda>u. map (\<lambda>v. (u_id u, v_id v))
                        (filter (\<lambda>v. v_driver_id v = Some (u_id u) \<and> v_status v = Available)
                           (vehicles db)))
               (filter (\<lambda>u. u_role u = ''driver'' \<and> u_status u = UserActive) (users db)))"

definition select_available_driver :: "database \<Rightarrow> nat \<Rightarrow> (int \<times> int) option" where
  "select_available_driver db pick =
     (case available_pairs db of
        [] \<Rightarrow> None
      | p # ps \<Rightarrow> Some ((p # ps) ! (pick mod length (p # ps))))"

definition insert_booking ::
  "database \<Rightarrow> int \<Rightarrow> string \<Rightarrow> int \<Rightarrow> BookingRequest \<Rightarrow> timestamp \<Rightarrow> database" where
  "insert_booking db booking_id booking_code user_id booking now =
     db\<lparr>bookings := bookings db @
        [\<lparr>b_id = booking_id, b_code = booking_code, b_user_id = user_id,
          b_from_location_id = from_location_id booking,
          b_to_location_id = to_location_id booking,
          b_status = Pending, b_driver_id = None, b_vehicle_id = None,
          b_notes = notes' booking, b_passenger_count = passenger_count booking,
          b_created_at = now, b_updated_at = None, b_accepted_at = None,
          b_started_at = None, b_completed_at = None, b_cancelled_at = None,
          b_cancellation_reason = None, b_cancelled_by = None\<rparr>],
       bookings_seq := booking_id\<rparr>"

definition insert_notification :: "database \<Rightarrow> int \<Rightarrow> string \<Rightarrow> timestamp \<Rightarrow> database" where
  "insert_notification db driver_id booking_code now =
     db\<lparr>notifications := notifications db @
        [\<lparr>n_user_id = driver_id, n_title = ''Booking Baru'',
          n_message = ''Booking baru #'' @ booking_code,
          n_type = ''booking'', n_priority = ''high'', n_created_at = now\<rparr>]\<rparr>"

definition create_booking ::
  "(websocket \<Rightarrow> bool) \<Rightarrow> ConnectionManager \<Rightarrow> database \<Rightarrow> BookingRequest \<Rightarrow> int \<Rightarrow> string
     \<Rightarrow> timestamp \<Rightarrow> nat
     \<Rightarrow> (error + int \<times> string \<times> string) \<times> database \<times> message send_event list" where
  "create_booking send_fails manager db booking user_id booking_code now pick =
     (let rows = select_active_locations db (from_location_id booking) (to_location_id booking)
      in if length rows \<noteq> 2
         then (Inl (HTTPException 404 ''Invalid or inactive location''), db, [])
         else if booking_code \<in> set (map b_code (bookings db))
         then (Inl (IntegrityError ''UNIQUE constraint failed: bookings.booking_code''), db, [])
         else
           let booking_id = next_rowid (bookings_seq db) (map b_id (bookings db));
               db1 = insert_booking db booking_id booking_code user_id booking now;
               driver = select_available_driver db1 pick;
               (db2, events) =
                 (case driver of
                    None \<Rightarrow> (db1, [])
                  | Some (driver_id, vehicle_id) \<Rightarrow>
                      (insert_notification
                         (update_bookings booking_id
                            (\<lambda>b. b\<lparr>b_driver_id := Some driver_id,
                                    b_vehicle_id := Some vehicle_id,
                                    b_status := Accepted, b_accepted_at := Some now\<rparr>) db1)
                         driver_id booking_code now,
                       send_to_driver send_fails manager driver_id
                         (NewBooking booking_id booking_code)))
           in (Inr (booking_id, booking_code,
                    if driver \<noteq> None then ''accepted'' else ''pending''),
               log_audit db2 user_id ''create'' ''booking'' (Some booking_id) None
                 (Some booking_code),
               events))"

definition cancel_booking ::
  "database \<Rightarrow> int \<Rightarrow> int \<Rightarrow> timestamp \<Rightarrow> (error + string) \<times> database" where
  "cancel_booking db booking_id user_id now =
     (case find (\<lambda>b. b_id b = booking_id \<and> b_user_id b = user_id) (bookings db) of
        None \<Rightarrow> (Inl (HTTPException 404 ''Booking not found''), db)
      | Some booking \<Rightarrow>
          if b_status booking \<notin> set [Pending, Accepted]
          then (Inl (HTTPException 400
                       (''Cannot cancel booking with status: '' @ status_text (b_status booking))),
                db)
          else
            (Inr ''Booking cancelled'',
             log_audit
               (update_bookings booking_id
                  (\<lambda>b. b\<lparr>b_status := Cancelled, b_cancelled_at := Some now,
                          b_cancelled_by := Some user_id,
                          b_cancellation_reason := Some ''Cancelled by user''\<rparr>) db)
               user_id ''cancel'' ''booking'' (Some booking_id)
               (Some (status_text (b_status booking))) (Some ''cancelled'')))"

section \<open>Driver handler\<close>

definition insert_trip :: "database \<Rightarrow> int \<Rightarrow> int \<Rightarrow> int \<Rightarrow> timestamp \<Rightarrow> database" where
  "insert_trip db booking_id driver_id vehicle_id now =
     (let trip_id = next_rowid (trips_seq db) (map t_id (trips db))
      in db\<lparr>trips := trips db @
            [\<lparr>t_id = trip_id, t_booking_id = Some booking_id, t_driver_id = driver_id,
              t_vehicle_id = vehicle_id, t_start_time = now, t_end_time = None,
              t_status = TripOngoing, t_created_at = now\<rparr>],
           trips_seq := trip_id\<rparr>)"

definition update_booking_status ::
  "database \<Rightarrow> int \<Rightarrow> string \<Rightarrow> int \<Rightarrow> timestamp \<Rightarrow> (error + string) \<times> database" where
  "update_booking_status db booking_id status user_id now =
     (case find (\<lambda>b. b_id b = booking_id \<and> b_driver_id b = Some user_id) (bookings db) of
        None \<Rightarrow> (Inl (HTTPException 404 ''Booking not found or not assigned to you''), db)
      | Some booking \<Rightarrow>
          let old_status = b_status booking;
              finish = (\<lambda>db'. (Inr status,
                          log_audit db' user_id ''status_update'' ''booking'' (Some booking_id)
                            (Some (status_text old_status)) (Some status)))
          in if status = ''driver_arriving''
             then finish (update_bookings booking_id
                            (\<lambda>b. b\<lparr>b_status := DriverArriving, b_updated_at := Some now\<rparr>) db)
             else if status = ''ongoing''
             then
               let db1 = update_bookings booking_id
                           (\<lambda>b. b\<lparr>b_status := Ongoing, b_started_at := Some now,
                                   b_updated_at := Some now\<rparr>) db
               in (case find (\<lambda>v. v_driver_id v = Some user_id) (vehicles db1) of
                     None \<Rightarrow> finish db1
                   | Some vehicle \<Rightarrow>
                       if Some booking_id \<in> set (map t_booking_id (trips db1))
                       then (Inl (IntegrityError ''UNIQUE constraint failed: trips.booking_id''),
                             db)
                       else finish (insert_trip db1 booking_id user_id (v_id vehicle) now))
             else if status = ''completed''
             then finish
                    (update_trips
                       (\<lambda>t. t_booking_id t = Some booking_id \<and> t_driver_id t = user_id)
                       (\<lambda>t. t\<lparr>t_end_time := Some now, t_status := TripCompleted\<rparr>)
                       (update_bookings booking_id
                          (\<lambda>b. b\<lparr>b_status := Completed, b_completed_at := Some now,
                                  b_updated_at := Some now\<rparr>) db))
             else (Inl (HTTPException 400 (''Invalid status: '' @ status)), db))"

section \<open>The seeded database\<close>

text \<open>
  The state \<^verbatim>\<open>create_database\<close> leaves behind: the admin (1), two drivers (2 and 3), the
  test student (4), one available vehicle per driver and the eight active campus stops.
\<close>

definition seed_database :: database where
  "seed_database =
     \<lparr>locations = map (\<lambda>i. \<lparr>loc_id = i, loc_status = LocActive\<rparr>) [1, 2, 3, 4, 5, 6, 7, 8],
      users = [\<lparr>u_id = 1, u_role = ''admin'', u_status = UserActive\<rparr>,
               \<lparr>u_id = 2, u_role = ''driver'', u_status = UserActive\<rparr>,
               \<lparr>u_id = 3, u_role = ''driver'', u_status = UserActive\<rparr>,
               \<lparr>u_id = 4, u_role = ''pengguna'', u_status = UserActive\<rparr>],
      vehicles = [\<lparr>v_id = 1, v_status = Available, v_driver_id = Some 2\<rparr>,
                  \<lparr>v_id = 2, v_status = Available, v_driver_id = Some 3\<rparr>],
      bookings = [], bookings_seq = 0, trips = [], trips_seq = 0,
      notifications = [], audit_log = []\<rparr>"

definition no_connections :: ConnectionManager where
  "no_connections = \<lparr>active_connections = [], driver_connections = Map.empty\<rparr>"

definition demo_manager :: ConnectionManager where
  "demo_manager = \<lparr>active_connections = [10, 11, 12], driver_connections = [2 \<mapsto> 11, 3 \<mapsto> 12]\<rparr>"

definition demo_booking :: booking where
  "demo_booking =
     \<lparr>b_id = 1, b_code = ''SHU20240101ABCDEF'', b_user_id = 4,
      b_from_location_id = 3, b_to_location_id = 5, b_status = Accepted,
      b_driver_id = Some 2, b_vehicle_id = Some 1, b_notes = None,
      b_passenger_count = 1, b_created_at = ''t0'', b_updated_at = None,
      b_accepted_at = Some ''t0'', b_started_at = None, b_completed_at = None,
      b_cancelled_at = None, b_cancellation_reason = None, b_cancelled_by = None\<rparr>"

definition booked_database :: database where
  "booked_database =
     seed_database
       \<lparr>bookings := [demo_booking], bookings_seq := 1,
        notifications :=
          [\<lparr>n_user_id = 2, n_title = ''Booking Baru'',
            n_message = ''Booking baru #SHU20240101ABCDEF'',
            n_type = ''booking'', n_priority = ''high'', n_created_at = ''t0''\<rparr>],
        audit_log :=
          [\<lparr>a_user_id = 4, a_action = ''create'', a_entity_type = ''booking'',
            a_entity_id = Some 1, a_old_value = None,
            a_new_value = Some ''SHU20240101ABCDEF''\<rparr>]\<rparr>"

definition completed_booking :: booking where
  "completed_booking =
     demo_booking\<lparr>b_status := Completed, b_started_at := Some ''t2'',
                  b_completed_at := Some ''t3'', b_updated_at := Some ''t3''\<rparr>"

definition completed_database :: database where
  "completed_database =
     booked_database
       \<lparr>bookings := [completed_booking],
        trips := [\<lparr>t_id = 1, t_booking_id = Some 1, t_driver_id = 2, t_vehicle_id = 1,
                   t_start_time = ''t2'', t_end_time = Some ''t3'',
                   t_status = TripCompleted, t_created_at = ''t2''\<rparr>],
        trips_seq := 1\<rparr>"

definition pending_booking :: booking where
  "pending_booking =
     demo_booking\<lparr>b_status := Pending, b_driver_id := None, b_vehicle_id := None,
                  b_accepted_at := None\<rparr>"

definition pending_database :: database where
  "pending_database =
     seed_database
       \<lparr>vehicles := [\<lparr>v_id = 1, v_status = Maintenance, v_driver_id = Some 2\<rparr>,
                     \<lparr>v_id = 2, v_status = InUse, v_driver_id = Some 3\<rparr>],
        bookings := [pending_booking], bookings_seq := 1,
        audit_log :=
          [\<lparr>a_user_id = 4, a_action = ''create'', a_entity_type = ''booking'',
            a_entity_id = Some 1, a_old_value = None,
            a_new_value = Some ''SHU20240101ABCDEF''\<rparr>]\<rparr>"









definition demo_request :: BookingRequest where
  "demo_request = \<lparr>from_location_id = 3, to_location_id = 5, notes' = None, passenger_count = 1\<rparr>"

definition unavailable_database :: database where
  "unavailable_database =
     seed_database
       \<lparr>vehicles := [\<lparr>v_id = 1, v_status = Maintenance, v_driver_id = Some 2\<rparr>,
                     \<lparr>v_id = 2, v_status = InUse, v_driver_id = Some 3\<rparr>]\<rparr>"

section \<open>Primary keys\<close>

lemma filter_key_le1:
  "distinct (map f xs) \<Longrightarrow> length (filter (\<lambda>x. f x = a \<and> P x) xs) \<le> Suc 0"
proof (induction xs)
  case Nil
  then show ?case by simp
next
  case (Cons x xs)
  show ?case
  proof (cases "f x = a")
    case True
    with Cons.prems have "\<forall>y\<in>set xs. f y \<noteq> a"
      by (metis distinct.simps(2) image_eqI list.simps(9) set_map)
    then have "filter (\<lambda>x. f x = a \<and> P x) xs = []"
      by (auto simp: filter_empty_conv)
    then show ?thesis by simp
  next
    case False
    with Cons show ?thesis by simp
  qed
qed

section \<open>Booking creation\<close>

text \<open>
  C10. A booking request whose two location ids are equal is always rejected with the
  404 "Invalid or inactive location" error and nothing is written, also when the
  location exists and is active: the primary key lets the two-id query match at most
  one row, and the handler demands two.
\<close>

theorem create_booking_same_location:
  assumes "distinct (map loc_id (locations db))"
    and "from_location_id booking = to_location_id booking"
  shows "create_booking send_fails manager db booking user_id booking_code now pick =
           (Inl (HTTPException 404 ''Invalid or inactive location''), db, [])"
proof -
  have "length (select_active_locations db (to_location_id booking) (to_location_id booking))
          \<le> Suc 0"
    unfolding select_active_locations_def
    using filter_key_le1[OF assms(1), of "to_location_id booking" "\<lambda>l. loc_status l = LocActive"]
    by simp
  then show ?thesis
    by (simp add: create_booking_def assms(2))
qed

theorem create_booking_same_location_witness:
  "distinct (map loc_id (locations seed_database)) \<and>
   \<lparr>loc_id = 3, loc_status = LocActive\<rparr> \<in> set (locations seed_database) \<and>
   create_booking (\<lambda>_. False) no_connections seed_database
       \<lparr>from_location_id = 3, to_location_id = 3, notes' = None, passenger_count = 1\<rparr>
       4 ''SHU20240101ABCDEF'' ''t0'' 0 =
     (Inl (HTTPException 404 ''Invalid or inactive location''), seed_database, [])"
proof -
  have d: "distinct (map loc_id (locations seed_database))"
    by (simp add: seed_database_def)
  have m: "\<lparr>loc_id = 3, loc_status = LocActive\<rparr> \<in> set (locations seed_database)"
    by (simp add: seed_database_def)
  from d m create_booking_same_location[OF d,
      of "\<lparr>from_location_id = 3, to_location_id = 3, notes' = None, passenger_count = 1\<rparr>"]
  show ?thesis by simp
qed

section \<open>Fan-out\<close>

lemma broadcast_sends_events:
  "fst (broadcast_sends send_fails message cs) =
     map (\<lambda>c. if send_fails c then SendFailed c message else Delivered c message) cs"
  by (induction cs) (auto split: prod.splits)

lemma broadcast_sends_dead:
  "snd (broadcast_sends send_fails message cs) = filter send_fails cs"
  by (induction cs) (auto split: prod.splits)

lemma active_fold_disconnect:
  "active_connections (fold (\<lambda>conn acc. disconnect acc conn) dead m) =
     fold (\<lambda>conn acc. if conn \<in> set acc then remove1 conn acc else acc) dead (active_connections m)"
  by (induction dead arbitrary: m) (auto simp: disconnect_def)

lemma driver_fold_disconnect:
  "driver_connections (fold (\<lambda>conn acc. disconnect acc conn) dead m) d =
     (case driver_connections m d of None \<Rightarrow> None
      | Some ws \<Rightarrow> if ws \<in> set dead then None else Some ws)"
  by (induction dead arbitrary: m) (auto simp: disconnect_def split: option.splits)

lemma fold_remove1_filter:
  assumes "\<forall>x\<in>set xs. \<not> P x"
  shows "fold (\<lambda>conn acc. if conn \<in> set acc then remove1 conn acc else acc) (filter P cs) (xs @ cs)
     = xs @ filter (\<lambda>c. \<not> P c) cs"
  using assms
proof (induction cs arbitrary: xs)
  case Nil then show ?case by simp
next
  case (Cons c cs)
  show ?case
  proof (cases "P c")
    case True
    with Cons.prems have "c \<notin> set xs" by auto
    then have "remove1 c (xs @ c # cs) = xs @ cs" by (simp add: remove1_append)
    with True Cons.IH[of xs] Cons.prems show ?thesis by simp
  next
    case False
    with Cons.IH[of "xs @ [c]"] Cons.prems show ?thesis by simp
  qed
qed

lemma broadcast_eq:
  "broadcast send_fails m message =
     (map (\<lambda>c. if send_fails c then SendFailed c message else Delivered c message) (active_connections m),
      fold (\<lambda>conn acc. disconnect acc conn) (filter send_fails (active_connections m)) m)"
proof (cases "broadcast_sends send_fails message (active_connections m)")
  case (Pair events dead)
  with broadcast_sends_events[of send_fails message "active_connections m"]
       broadcast_sends_dead[of send_fails message "active_connections m"]
  show ?thesis by (simp add: broadcast_def)
qed

text \<open>
  C9. A broadcast attempts a send on every connection registered when it starts, in
  order; every connection whose send does not fail is delivered the message, whatever
  happened to the others; afterwards the connections left are exactly those whose send
  succeeded, and a failed connection is gone from the driver index as well. A message for
  driver \<open>d\<close> goes to the connection registered for \<open>d\<close> and to no other, and nothing
  is sent when \<open>d\<close> has none.
\<close>

theorem fanout_delivery:
  "map attempted_on (fst (broadcast send_fails m message)) = active_connections m \<and>
   (\<forall>c \<in> set (active_connections m).
       \<not> send_fails c \<longrightarrow> Delivered c message \<in> set (fst (broadcast send_fails m message))) \<and>
   active_connections (snd (broadcast send_fails m message)) =
     filter (\<lambda>c. \<not> send_fails c) (active_connections m) \<and>
   (\<forall>c \<in> set (active_connections m). send_fails c \<longrightarrow>
       c \<notin> set (active_connections (snd (broadcast send_fails m message))) \<and>
       (\<forall>d. driver_connections (snd (broadcast send_fails m message)) d \<noteq> Some c)) \<and>
   (\<forall>e \<in> set (send_to_driver send_fails m d message).
       driver_connections m d = Some (attempted_on e)) \<and>
   (driver_connections m d = None \<longrightarrow> send_to_driver send_fails m d message = []) \<and>
   (\<forall>ws. driver_connections m d = Some ws \<and> \<not> send_fails ws \<longrightarrow>
       send_to_driver send_fails m d message = [Delivered ws message])"
proof -
  let ?b = "broadcast send_fails m message"
  have ev: "fst ?b = map (\<lambda>c. if send_fails c then SendFailed c message else Delivered c message)
                        (active_connections m)"
    by (simp add: broadcast_eq)
  have a1: "map attempted_on (fst ?b) = active_connections m"
    unfolding ev by (induction "active_connections m") (auto simp: map_idI)
  have a2: "\<forall>c \<in> set (active_connections m). \<not> send_fails c \<longrightarrow> Delivered c message \<in> set (fst ?b)"
    unfolding ev by force
  have act: "active_connections (snd ?b) = filter (\<lambda>c. \<not> send_fails c) (active_connections m)"
    using fold_remove1_filter[of "[]" send_fails "active_connections m"]
    by (simp add: broadcast_eq active_fold_disconnect)
  have drv: "\<And>d. driver_connections (snd ?b) d =
      (case driver_connections m d of None \<Rightarrow> None
       | Some ws \<Rightarrow> if ws \<in> set (filter send_fails (active_connections m)) then None else Some ws)"
    by (simp add: broadcast_eq driver_fold_disconnect)
  have a4: "\<forall>c \<in> set (active_connections m). send_fails c \<longrightarrow>
       c \<notin> set (active_connections (snd ?b)) \<and> (\<forall>d. driver_connections (snd ?b) d \<noteq> Some c)"
    unfolding act drv by (auto split: option.splits)
  have a5: "\<forall>e \<in> set (send_to_driver send_fails m d message).
       driver_connections m d = Some (attempted_on e)"
    by (auto simp: send_to_driver_def split: option.splits if_splits)
  have a6: "driver_connections m d = None \<longrightarrow> send_to_driver send_fails m d message = []"
    by (simp add: send_to_driver_def)
  have a7: "\<forall>ws. driver_connections m d = Some ws \<and> \<not> send_fails ws \<longrightarrow>
       send_to_driver send_fails m d message = [Delivered ws message]"
    by (simp add: send_to_driver_def)
  from a1 a2 act a4 a5 a6 a7 show ?thesis by blast
qed


theorem fanout_delivery_witness:
  "10 \<in> set (active_connections demo_manager) \<and> \<not> (\<lambda>c. c = 11) (10::nat) \<and>
   Delivered 10 ''m'' \<in> set (fst (broadcast (\<lambda>c. c = 11) demo_manager ''m'')) \<and>
   11 \<in> set (active_connections demo_manager) \<and> (\<lambda>c. c = 11) (11::nat) \<and>
   driver_connections demo_manager 2 = Some 11 \<and>
   11 \<notin> set (active_connections (snd (broadcast (\<lambda>c. c = 11) demo_manager ''m''))) \<and>
   driver_connections (snd (broadcast (\<lambda>c. c = 11) demo_manager ''m'')) 2 \<noteq> Some 11 \<and>
   Delivered 12 ''m'' \<in> set (fst (broadcast (\<lambda>c. c = 11) demo_manager ''m'')) \<and>
   driver_connections demo_manager 3 = Some 12 \<and>
   send_to_driver (\<lambda>c. c = 11) demo_manager 3 ''m'' = [Delivered 12 ''m''] \<and>
   driver_connections demo_manager 5 = None \<and>
   send_to_driver (\<lambda>c. c = 11) demo_manager 5 ''m'' = []"
proof -
  have h: "10 \<in> set (active_connections demo_manager)"
          "11 \<in> set (active_connections demo_manager)"
          "12 \<in> set (active_connections demo_manager)"
          "driver_connections demo_manager 2 = Some 11"
          "driver_connections demo_manager 3 = Some 12"
          "driver_connections demo_manager 5 = None"
    by (simp_all add: demo_manager_def)
  have ne: "(10::nat) \<noteq> 11" "(12::nat) \<noteq> 11"
    by simp_all
  from h ne fanout_delivery[of "\<lambda>c. c = 11" demo_manager "''m''" 3]
       fanout_delivery[of "\<lambda>c. c = 11" demo_manager "''m''" 5]
  show ?thesis by blast
qed

lemma key_unique:
  "distinct (map f xs) \<Longrightarrow> x \<in> set xs \<Longrightarrow> y \<in> set xs \<Longrightarrow> f x = f y \<Longrightarrow> x = y"
  by (metis distinct_map inj_on_def)

lemma find_by_key:
  assumes "distinct (map f xs)" and "x \<in> set xs" and "f x = k"
  shows "find (\<lambda>y. f y = k \<and> P y) xs = (if P x then Some x else None)"
proof (cases "P x")
  case True
  have "\<exists>y. find (\<lambda>y. f y = k \<and> P y) xs = Some y"
    using assms True by (cases "find (\<lambda>y. f y = k \<and> P y) xs") (auto simp: find_None_iff)
  then obtain y where y: "find (\<lambda>y. f y = k \<and> P y) xs = Some y" ..
  then have "y \<in> set xs" "f y = k"
    by (auto simp: find_Some_iff)
  with assms have "y = x"
    using key_unique[of f xs y x] by simp
  with y True show ?thesis by simp
next
  case False
  have "find (\<lambda>y. f y = k \<and> P y) xs = None"
    unfolding find_None_iff
  proof (intro notI, elim exE conjE)
    fix y assume "y \<in> set xs" "f y = k" "P y"
    with assms have "y = x" using key_unique[of f xs y x] by simp
    with \<open>P y\<close> False show False by simp
  qed
  with False show ?thesis by simp
qed

lemma update_by_key:
  assumes "distinct (map f xs)" and "x \<in> set xs" and "f x = k"
  shows "map (\<lambda>y. if f y = k then g y else y) xs = map (\<lambda>y. if y = x then g x else y) xs"
proof (rule map_cong[OF refl])
  fix y assume "y \<in> set xs"
  with assms have "f y = k \<longleftrightarrow> y = x"
    using key_unique[of f xs y x] by auto
  then show "(if f y = k then g y else y) = (if y = x then g x else y)" by auto
qed

section \<open>Cancellation\<close>

lemma cancel_booking_found:
  assumes "find (\<lambda>b. b_id b = booking_id \<and> b_user_id b = user_id) (bookings db) = Some b"
  shows "cancel_booking db booking_id user_id now =
           (if b_status b = Pending \<or> b_status b = Accepted
            then (Inr ''Booking cancelled'',
                  log_audit
                    (update_bookings booking_id
                       (\<lambda>b. b\<lparr>b_status := Cancelled, b_cancelled_at := Some now,
                               b_cancelled_by := Some user_id,
                               b_cancellation_reason := Some ''Cancelled by user''\<rparr>) db)
                    user_id ''cancel'' ''booking'' (Some booking_id)
                    (Some (status_text (b_status b))) (Some ''cancelled''))
            else (Inl (HTTPException 400
                         (''Cannot cancel booking with status: '' @ status_text (b_status b))),
                  db))"
  using assms by (simp add: cancel_booking_def)

lemma cancel_booking_not_found:
  assumes "find (\<lambda>b. b_id b = booking_id \<and> b_user_id b = user_id) (bookings db) = None"
  shows "cancel_booking db booking_id user_id now =
           (Inl (HTTPException 404 ''Booking not found''), db)"
  using assms by (simp add: cancel_booking_def)

lemma bookings_log_audit [simp]: "bookings (log_audit db u a e i ov nv) = bookings db"
  by (simp add: log_audit_def)

lemma bookings_update_bookings [simp]:
  "bookings (update_bookings k g db) = map (\<lambda>b. if b_id b = k then g b else b) (bookings db)"
  by (simp add: update_bookings_def)

text \<open>
  C5. With booking ids unique, \<^verbatim>\<open>cancel_booking\<close> succeeds exactly when a booking with
  the given id exists, belongs to the acting rider and is pending or accepted; it then
  becomes cancelled, with the time, the rider as canceller and the reason recorded, and
  no other booking changes. A rider's own booking in any other status (completed, say) is
  refused with status 400 and the database is returned unchanged.
\<close>

theorem cancel_booking_guard:
  assumes pk: "distinct (map b_id (bookings db))"
  shows "((\<exists>r. fst (cancel_booking db booking_id user_id now) = Inr r) \<longleftrightarrow>
            (\<exists>b\<in>set (bookings db). b_id b = booking_id \<and> b_user_id b = user_id \<and>
                b_status b \<in> {Pending, Accepted})) \<and>
         (\<forall>b\<in>set (bookings db).
            b_id b = booking_id \<and> b_user_id b = user_id \<and> b_status b \<in> {Pending, Accepted} \<longrightarrow>
            fst (cancel_booking db booking_id user_id now) = Inr ''Booking cancelled'' \<and>
            bookings (snd (cancel_booking db booking_id user_id now)) =
              map (\<lambda>x. if x = b
                        then b\<lparr>b_status := Cancelled, b_cancelled_at := Some now,
                               b_cancelled_by := Some user_id,
                               b_cancellation_reason := Some ''Cancelled by user''\<rparr>
                        else x) (bookings db)) \<and>
         (\<forall>b\<in>set (bookings db).
            b_id b = booking_id \<and> b_user_id b = user_id \<and> b_status b \<notin> {Pending, Accepted} \<longrightarrow>
            cancel_booking db booking_id user_id now =
              (Inl (HTTPException 400
                      (''Cannot cancel booking with status: '' @ status_text (b_status b))), db))"
proof -
  have found: "find (\<lambda>y. b_id y = booking_id \<and> b_user_id y = user_id) (bookings db) = Some b"
    if "b \<in> set (bookings db)" "b_id b = booking_id" "b_user_id b = user_id" for b
    using find_by_key[OF pk that(1) that(2), of "\<lambda>y. b_user_id y = user_id"] that(3) by simp
  have ok: "fst (cancel_booking db booking_id user_id now) = Inr ''Booking cancelled'' \<and>
            bookings (snd (cancel_booking db booking_id user_id now)) =
              map (\<lambda>x. if x = b
                        then b\<lparr>b_status := Cancelled, b_cancelled_at := Some now,
                               b_cancelled_by := Some user_id,
                               b_cancellation_reason := Some ''Cancelled by user''\<rparr>
                        else x) (bookings db)"
    if "b \<in> set (bookings db)" "b_id b = booking_id" "b_user_id b = user_id"
       "b_status b \<in> {Pending, Accepted}" for b
  proof -
    from that(4) have st: "b_status b = Pending \<or> b_status b = Accepted" by simp
    let ?g = "\<lambda>x. x\<lparr>b_status := Cancelled, b_cancelled_at := Some now,
                     b_cancelled_by := Some user_id,
                     b_cancellation_reason := Some ''Cancelled by user''\<rparr>"
    have r: "fst (cancel_booking db booking_id user_id now) = Inr ''Booking cancelled''"
      using st by (simp add: cancel_booking_found[OF found[OF that(1,2,3)]])
    have "bookings (snd (cancel_booking db booking_id user_id now)) =
            map (\<lambda>x. if b_id x = booking_id then ?g x else x) (bookings db)"
      using st by (simp add: cancel_booking_found[OF found[OF that(1,2,3)]])
    also have "\<dots> = map (\<lambda>x. if x = b then ?g b else x) (bookings db)"
      by (rule update_by_key[OF pk that(1) that(2)])
    finally show ?thesis using r by simp
  qed
  have bad: "cancel_booking db booking_id user_id now =
              (Inl (HTTPException 400
                      (''Cannot cancel booking with status: '' @ status_text (b_status b))), db)"
    if "b \<in> set (bookings db)" "b_id b = booking_id" "b_user_id b = user_id"
       "b_status b \<notin> {Pending, Accepted}" for b
    unfolding cancel_booking_found[OF found[OF that(1,2,3)]]
    using that(4) by simp
  have iff: "(\<exists>r. fst (cancel_booking db booking_id user_id now) = Inr r) \<longleftrightarrow>
            (\<exists>b\<in>set (bookings db). b_id b = booking_id \<and> b_user_id b = user_id \<and>
                b_status b \<in> {Pending, Accepted})"
  proof
    assume a: "\<exists>r. fst (cancel_booking db booking_id user_id now) = Inr r"
    show "\<exists>b\<in>set (bookings db). b_id b = booking_id \<and> b_user_id b = user_id \<and>
                b_status b \<in> {Pending, Accepted}"
    proof (cases "find (\<lambda>y. b_id y = booking_id \<and> b_user_id y = user_id) (bookings db)")
      case None
      with a show ?thesis by (simp add: cancel_booking_not_found)
    next
      case (Some b)
      then have m: "b \<in> set (bookings db)" "b_id b = booking_id" "b_user_id b = user_id"
        by (auto simp: find_Some_iff)
      from a Some have "b_status b = Pending \<or> b_status b = Accepted"
        by (auto simp: cancel_booking_found split: if_splits)
      with m show ?thesis by auto
    qed
  next
    assume "\<exists>b\<in>set (bookings db). b_id b = booking_id \<and> b_user_id b = user_id \<and>
                b_status b \<in> {Pending, Accepted}"
    with ok show "\<exists>r. fst (cancel_booking db booking_id user_id now) = Inr r" by blast
  qed
  from iff ok bad show ?thesis by blast
qed


theorem cancel_booking_guard_witness:
  "distinct (map b_id (bookings booked_database)) \<and>
   demo_booking \<in> set (bookings booked_database) \<and>
   b_id demo_booking = 1 \<and> b_user_id demo_booking = 4 \<and>
   b_status demo_booking \<in> {Pending, Accepted} \<and>
   fst (cancel_booking booked_database 1 4 ''t1'') = Inr ''Booking cancelled'' \<and>
   bookings (snd (cancel_booking booked_database 1 4 ''t1'')) =
     [demo_booking\<lparr>b_status := Cancelled, b_cancelled_at := Some ''t1'',
                   b_cancelled_by := Some 4,
                   b_cancellation_reason := Some ''Cancelled by user''\<rparr>] \<and>
   distinct (map b_id (bookings completed_database)) \<and>
   completed_booking \<in> set (bookings completed_database) \<and>
   b_id completed_booking = 1 \<and> b_user_id completed_booking = 4 \<and>
   b_status completed_booking \<notin> {Pending, Accepted} \<and>
   cancel_booking completed_database 1 4 ''t4'' =
     (Inl (HTTPException 400 ''Cannot cancel booking with status: completed''),
      completed_database)"
proof -
  have a: "distinct (map b_id (bookings booked_database))"
          "demo_booking \<in> set (bookings booked_database)"
          "bookings booked_database = [demo_booking]"
    by (simp_all add: booked_database_def)
  have b: "b_id demo_booking = 1" "b_user_id demo_booking = 4"
          "b_status demo_booking \<in> {Pending, Accepted}"
    by (simp_all add: demo_booking_def)
  have c: "distinct (map b_id (bookings completed_database))"
          "completed_booking \<in> set (bookings completed_database)"
    by (simp_all add: completed_database_def)
  have d: "b_id completed_booking = 1" "b_user_id completed_booking = 4"
          "b_status completed_booking \<notin> {Pending, Accepted}"
          "status_text (b_status completed_booking) = ''completed''"
    by (simp_all add: completed_booking_def demo_booking_def)
  from cancel_booking_guard[OF a(1), of 1 4 "''t1''"] a(2) b
  have e: "fst (cancel_booking booked_database 1 4 ''t1'') = Inr ''Booking cancelled''"
          "bookings (snd (cancel_booking booked_database 1 4 ''t1'')) =
            map (\<lambda>x. if x = demo_booking
                      then demo_booking\<lparr>b_status := Cancelled, b_cancelled_at := Some ''t1'',
                             b_cancelled_by := Some 4,
                             b_cancellation_reason := Some ''Cancelled by user''\<rparr>
                      else x) (bookings booked_database)"
    by blast+
  from cancel_booking_guard[OF c(1), of 1 4 "''t4''"] c(2) d(1,2,3)
  have f: "cancel_booking completed_database 1 4 ''t4'' =
            (Inl (HTTPException 400
               (''Cannot cancel booking with status: '' @ status_text (b_status completed_booking))),
             completed_database)"
    by blast
  from a b c d e f show ?thesis by simp
qed

section \<open>Driver status updates\<close>

lemma update_booking_status_not_found:
  assumes "find (\<lambda>b. b_id b = booking_id \<and> b_driver_id b = Some user_id) (bookings db) = None"
  shows "update_booking_status db booking_id status user_id now =
           (Inl (HTTPException 404 ''Booking not found or not assigned to you''), db)"
  using assms by (simp add: update_booking_status_def)

lemma update_booking_status_invalid:
  assumes "find (\<lambda>b. b_id b = booking_id \<and> b_driver_id b = Some user_id) (bookings db) = Some b"
    and "status \<noteq> ''driver_arriving''" and "status \<noteq> ''ongoing''" and "status \<noteq> ''completed''"
  shows "update_booking_status db booking_id status user_id now =
           (Inl (HTTPException 400 (''Invalid status: '' @ status)), db)"
  using assms by (simp add: update_booking_status_def)

lemma update_booking_status_arriving:
  assumes "find (\<lambda>b. b_id b = booking_id \<and> b_driver_id b = Some user_id) (bookings db) = Some b"
  shows "update_booking_status db booking_id ''driver_arriving'' user_id now =
           (Inr ''driver_arriving'',
            log_audit
              (update_bookings booking_id
                 (\<lambda>b. b\<lparr>b_status := DriverArriving, b_updated_at := Some now\<rparr>) db)
              user_id ''status_update'' ''booking'' (Some booking_id)
              (Some (status_text (b_status b))) (Some ''driver_arriving''))"
  using assms by (simp add: update_booking_status_def)

lemma update_booking_status_completed:
  assumes "find (\<lambda>b. b_id b = booking_id \<and> b_driver_id b = Some user_id) (bookings db) = Some b"
  shows "update_booking_status db booking_id ''completed'' user_id now =
           (Inr ''completed'',
            log_audit
              (update_trips
                 (\<lambda>t. t_booking_id t = Some booking_id \<and> t_driver_id t = user_id)
                 (\<lambda>t. t\<lparr>t_end_time := Some now, t_status := TripCompleted\<rparr>)
                 (update_bookings booking_id
                    (\<lambda>b. b\<lparr>b_status := Completed, b_completed_at := Some now,
                            b_updated_at := Some now\<rparr>) db))
              user_id ''status_update'' ''booking'' (Some booking_id)
              (Some (status_text (b_status b))) (Some ''completed''))"
  using assms by (simp add: update_booking_status_def)

lemma update_booking_status_ongoing:
  assumes "find (\<lambda>b. b_id b = booking_id \<and> b_driver_id b = Some user_id) (bookings db) = Some b"
  shows "update_booking_status db booking_id ''ongoing'' user_id now =
           (let db1 = update_bookings booking_id
                        (\<lambda>b. b\<lparr>b_status := Ongoing, b_started_at := Some now,
                                b_updated_at := Some now\<rparr>) db;
                finish = (\<lambda>db'. (Inr ''ongoing'',
                            log_audit db' user_id ''status_update'' ''booking'' (Some booking_id)
                              (Some (status_text (b_status b))) (Some ''ongoing'')))
            in case find (\<lambda>v. v_driver_id v = Some user_id) (vehicles db) of
                 None \<Rightarrow> finish db1
               | Some vehicle \<Rightarrow>
                   if Some booking_id \<in> set (map t_booking_id (trips db))
                   then (Inl (IntegrityError ''UNIQUE constraint failed: trips.booking_id''), db)
                   else finish (insert_trip db1 booking_id user_id (v_id vehicle) now))"
  using assms by (simp add: update_booking_status_def update_bookings_def Let_def split: option.splits)

text \<open>
  C7 (amended). With booking ids unique, a status update by a driver other than the one the
  booking is assigned to is rejected and the database is returned unchanged. The
  rejection is the 404 "Booking not found or not assigned to you" of the combined
  \<^verbatim>\<open>WHERE id = ? AND driver_id = ?\<close> lookup, not a 403: the handler cannot tell a foreign
  booking from a missing one.
\<close>

theorem transition_by_other_driver:
  assumes "distinct (map b_id (bookings db))"
    and "b \<in> set (bookings db)" and "b_id b = booking_id"
    and "b_driver_id b = Some driver_b" and "user_id \<noteq> driver_b"
  shows "update_booking_status db booking_id status user_id now =
           (Inl (HTTPException 404 ''Booking not found or not assigned to you''), db)"
proof -
  have "find (\<lambda>y. b_id y = booking_id \<and> b_driver_id y = Some user_id) (bookings db) = None"
    using find_by_key[OF assms(1,2,3), of "\<lambda>y. b_driver_id y = Some user_id"] assms(4,5)
    by simp
  then show ?thesis by (rule update_booking_status_not_found)
qed

theorem transition_by_other_driver_witness:
  "distinct (map b_id (bookings booked_database)) \<and>
   demo_booking \<in> set (bookings booked_database) \<and> b_id demo_booking = 1 \<and>
   b_driver_id demo_booking = Some 2 \<and> (3::int) \<noteq> 2 \<and>
   update_booking_status booked_database 1 ''driver_arriving'' 3 ''t1'' =
     (Inl (HTTPException 404 ''Booking not found or not assigned to you''), booked_database)"
proof -
  have a: "distinct (map b_id (bookings booked_database))"
          "demo_booking \<in> set (bookings booked_database)"
    by (simp_all add: booked_database_def)
  have b: "b_id demo_booking = 1" "b_driver_id demo_booking = Some 2"
    by (simp_all add: demo_booking_def)
  have c: "(3::int) \<noteq> 2" by simp
  from a b c transition_by_other_driver[OF a b c, of "''driver_arriving''" "''t1''"]
  show ?thesis by simp
qed

theorem other_driver_not_forbidden:
  "update_booking_status booked_database 1 ''completed'' 3 ''t1'' =
     (Inl (HTTPException 404 ''Booking not found or not assigned to you''), booked_database)"
  by (simp add: update_booking_status_def booked_database_def demo_booking_def)


text \<open>
  C1. The driver handler validates the target status and the \<^verbatim>\<open>(id, driver_id)\<close> lookup only;
  the booking's current status is read for the audit row and never compared. On the seeded
  database with booking 1 of driver 2 already completed (trip closed), the update to
  \<^verbatim>\<open>driver_arriving\<close> by driver 2 succeeds and moves the booking out of \<^verbatim>\<open>completed\<close>,
  whereas the rider's \<^verbatim>\<open>cancel_booking\<close> on the same booking is refused with 400 because of
  its status.
\<close>

theorem completed_to_driver_arriving_succeeds:
  "fst (update_booking_status completed_database 1 ''driver_arriving'' 2 ''t4'') =
     Inr ''driver_arriving'' \<and>
   map b_status (bookings completed_database) = [Completed] \<and>
   map b_status
     (bookings (snd (update_booking_status completed_database 1 ''driver_arriving'' 2 ''t4''))) =
     [DriverArriving] \<and>
   cancel_booking completed_database 1 4 ''t4'' =
     (Inl (HTTPException 400 ''Cannot cancel booking with status: completed''),
      completed_database)"
  by (simp add: update_booking_status_def cancel_booking_def completed_database_def
      completed_booking_def demo_booking_def update_bookings_def log_audit_def)

section \<open>Trips\<close>

lemma log_audit_fields [simp]:
  "locations (log_audit db u a e i ov nv) = locations db"
  "users (log_audit db u a e i ov nv) = users db"
  "vehicles (log_audit db u a e i ov nv) = vehicles db"
  "bookings_seq (log_audit db u a e i ov nv) = bookings_seq db"
  "trips (log_audit db u a e i ov nv) = trips db"
  "trips_seq (log_audit db u a e i ov nv) = trips_seq db"
  "notifications (log_audit db u a e i ov nv) = notifications db"
  by (simp_all add: log_audit_def)

lemma update_bookings_fields [simp]:
  "locations (update_bookings k g db) = locations db"
  "users (update_bookings k g db) = users db"
  "vehicles (update_bookings k g db) = vehicles db"
  "bookings_seq (update_bookings k g db) = bookings_seq db"
  "trips (update_bookings k g db) = trips db"
  "trips_seq (update_bookings k g db) = trips_seq db"
  "notifications (update_bookings k g db) = notifications db"
  by (simp_all add: update_bookings_def)

lemma update_trips_fields [simp]:
  "locations (update_trips c g db) = locations db"
  "users (update_trips c g db) = users db"
  "vehicles (update_trips c g db) = vehicles db"
  "bookings (update_trips c g db) = bookings db"
  "bookings_seq (update_trips c g db) = bookings_seq db"
  "trips (update_trips c g db) = map (\<lambda>t. if c t then g t else t) (trips db)"
  "trips_seq (update_trips c g db) = trips_seq db"
  "notifications (update_trips c g db) = notifications db"
  by (simp_all add: update_trips_def)

lemma insert_trip_fields [simp]:
  "locations (insert_trip db b d v now) = locations db"
  "users (insert_trip db b d v now) = users db"
  "vehicles (insert_trip db b d v now) = vehicles db"
  "bookings (insert_trip db b d v now) = bookings db"
  "bookings_seq (insert_trip db b d v now) = bookings_seq db"
  "notifications (insert_trip db b d v now) = notifications db"
  "trips (insert_trip db b d v now) =
     trips db @ [\<lparr>t_id = next_rowid (trips_seq db) (map t_id (trips db)),
                  t_booking_id = Some b, t_driver_id = d, t_vehicle_id = v,
                  t_start_time = now, t_end_time = None, t_status = TripOngoing,
                  t_created_at = now\<rparr>]"
  "trips_seq (insert_trip db b d v now) = next_rowid (trips_seq db) (map t_id (trips db))"
  by (simp_all add: insert_trip_def Let_def)












section \<open>Ongoing trips per driver\<close>




section \<open>Auto-assignment and booking codes\<close>

lemma le_fold_max: "(x::int) \<in> set ids \<Longrightarrow> x \<le> fold max ids seq"
proof (induction ids arbitrary: seq)
  case Nil
  then show ?case by simp
next
  case (Cons i ids)
  have mono: "\<And>a. a \<le> fold max ids (a::int)"
  proof -
    fix a :: int
    show "a \<le> fold max ids a"
    proof (induction ids arbitrary: a)
      case Nil
      show ?case by simp
    next
      case (Cons j js)
      have "a \<le> max j a" by simp
      also have "\<dots> \<le> fold max js (max j a)" by (rule Cons.IH)
      finally show ?case by simp
    qed
  qed
  show ?case
  proof (cases "x = i")
    case True
    have "x \<le> max i seq" using True by simp
    also have "\<dots> \<le> fold max ids (max i seq)" by (rule mono)
    finally show ?thesis by simp
  next
    case False
    with Cons.prems have "x \<in> set ids" by simp
    from Cons.IH[OF this] show ?thesis by simp
  qed
qed

lemma next_rowid_fresh: "next_rowid seq ids \<notin> set ids"
proof
  assume "next_rowid seq ids \<in> set ids"
  from le_fold_max[OF this, of seq] show False by (simp add: next_rowid_def)
qed

lemma available_pairs_insert_booking [simp]:
  "available_pairs (insert_booking db i c u b now) = available_pairs db"
  by (simp add: available_pairs_def insert_booking_def)

lemma available_pairs_iff:
  "(d, w) \<in> set (available_pairs db) \<longleftrightarrow>
     (\<exists>u\<in>set (users db). \<exists>v\<in>set (vehicles db).
        d = u_id u \<and> w = v_id v \<and> v_driver_id v = Some (u_id u) \<and>
        u_role u = ''driver'' \<and> u_status u = UserActive \<and> v_status v = Available)"
  by (auto simp: available_pairs_def)

lemma select_available_driver_eq:
  "select_available_driver db pick =
     (if available_pairs db = [] then None
      else Some (available_pairs db ! (pick mod length (available_pairs db))))"
  by (cases "available_pairs db") (simp_all add: select_available_driver_def)

lemma select_available_driver_None:
  "select_available_driver db pick = None \<longleftrightarrow> available_pairs db = []"
  by (simp add: select_available_driver_eq)

lemma select_available_driver_Some:
  assumes "select_available_driver db pick = Some p"
  shows "p \<in> set (available_pairs db)"
proof -
  from assms have ne: "available_pairs db \<noteq> []"
    and p: "p = available_pairs db ! (pick mod length (available_pairs db))"
    by (simp_all add: select_available_driver_eq split: if_splits)
  from ne have "pick mod length (available_pairs db) < length (available_pairs db)"
    by simp
  then show ?thesis unfolding p by (rule nth_mem)
qed

lemma select_available_driver_any:
  assumes "p \<in> set (available_pairs db)"
  shows "\<exists>pick. select_available_driver db pick = Some p"
proof -
  from assms obtain i where i: "i < length (available_pairs db)" "available_pairs db ! i = p"
    by (auto simp: in_set_conv_nth)
  then have "select_available_driver db i = Some p"
    by (auto simp: select_available_driver_eq)
  then show ?thesis ..
qed


lemma select_available_driver_insert_booking [simp]:
  "select_available_driver (insert_booking db i c u b now) pick = select_available_driver db pick"
  by (simp add: select_available_driver_def)

lemma update_new_row_only:
  assumes "k \<notin> set (map b_id xs)"
  shows "map (\<lambda>b. if b_id b = k then g b else b) xs = xs"
  using assms by (intro map_idI) (force simp: image_iff)

lemma create_booking_pending:
  assumes loc: "length (select_active_locations db (from_location_id booking)
                          (to_location_id booking)) = 2"
    and fresh: "booking_code \<notin> set (map b_code (bookings db))"
    and none: "select_available_driver db pick = None"
  shows "create_booking send_fails manager db booking user_id booking_code now pick =
           (Inr (next_rowid (bookings_seq db) (map b_id (bookings db)), booking_code, ''pending''),
            db\<lparr>bookings := bookings db @
                 [\<lparr>b_id = next_rowid (bookings_seq db) (map b_id (bookings db)),
                   b_code = booking_code, b_user_id = user_id,
                   b_from_location_id = from_location_id booking,
                   b_to_location_id = to_location_id booking,
                   b_status = Pending, b_driver_id = None, b_vehicle_id = None,
                   b_notes = notes' booking, b_passenger_count = passenger_count booking,
                   b_created_at = now, b_updated_at = None, b_accepted_at = None,
                   b_started_at = None, b_completed_at = None, b_cancelled_at = None,
                   b_cancellation_reason = None, b_cancelled_by = None\<rparr>],
               bookings_seq := next_rowid (bookings_seq db) (map b_id (bookings db)),
               audit_log := audit_log db @
                 [\<lparr>a_user_id = user_id, a_action = ''create'', a_entity_type = ''booking'',
                   a_entity_id = Some (next_rowid (bookings_seq db) (map b_id (bookings db))),
                   a_old_value = None, a_new_value = Some booking_code\<rparr>]\<rparr>,
            [])"
proof -
  show ?thesis
    using loc fresh
    by (simp add: create_booking_def Let_def none) (simp add: insert_booking_def log_audit_def)
qed

lemma create_booking_accepted:
  assumes loc: "length (select_active_locations db (from_location_id booking)
                          (to_location_id booking)) = 2"
    and fresh: "booking_code \<notin> set (map b_code (bookings db))"
    and some: "select_available_driver db pick = Some (d, w)"
  shows "create_booking send_fails manager db booking user_id booking_code now pick =
           (Inr (next_rowid (bookings_seq db) (map b_id (bookings db)), booking_code, ''accepted''),
            db\<lparr>bookings := bookings db @
                 [\<lparr>b_id = next_rowid (bookings_seq db) (map b_id (bookings db)),
                   b_code = booking_code, b_user_id = user_id,
                   b_from_location_id = from_location_id booking,
                   b_to_location_id = to_location_id booking,
                   b_status = Accepted, b_driver_id = Some d, b_vehicle_id = Some w,
                   b_notes = notes' booking, b_passenger_count = passenger_count booking,
                   b_created_at = now, b_updated_at = None, b_accepted_at = Some now,
                   b_started_at = None, b_completed_at = None, b_cancelled_at = None,
                   b_cancellation_reason = None, b_cancelled_by = None\<rparr>],
               bookings_seq := next_rowid (bookings_seq db) (map b_id (bookings db)),
               notifications := notifications db @
                 [\<lparr>n_user_id = d, n_title = ''Booking Baru'',
                   n_message = ''Booking baru #'' @ booking_code,
                   n_type = ''booking'', n_priority = ''high'', n_created_at = now\<rparr>],
               audit_log := audit_log db @
                 [\<lparr>a_user_id = user_id, a_action = ''create'', a_entity_type = ''booking'',
                   a_entity_id = Some (next_rowid (bookings_seq db) (map b_id (bookings db))),
                   a_old_value = None, a_new_value = Some booking_code\<rparr>]\<rparr>,
            send_to_driver send_fails manager d
              (NewBooking (next_rowid (bookings_seq db) (map b_id (bookings db))) booking_code))"
proof -
  note keep = update_new_row_only[OF next_rowid_fresh[of "bookings_seq db" "map b_id (bookings db)"]]
  show ?thesis
    using loc fresh
    by (simp add: create_booking_def Let_def some)
      (simp add: insert_booking_def log_audit_def update_bookings_def insert_notification_def
        keep)
qed


text \<open>
  C3 (amended). A booking request with two active locations and an unused code. The
  auto-assignment query finds no row exactly when no active driver has an available
  vehicle. When it returns the pair \<open>(d, w)\<close>, that pair is an active driver with an
  available vehicle of his; the response is \<^verbatim>\<open>accepted\<close>; the new booking is stored accepted
  with driver \<open>d\<close>, vehicle \<open>w\<close> and the acceptance time; one notification for \<open>d\<close> is
  stored; the new-booking message is sent to \<open>d\<close> only. When it returns nothing, the
  response is \<^verbatim>\<open>pending\<close>, the booking is stored pending without driver and vehicle,
  no notification is stored and nothing is sent. In both cases the vehicles table is left
  as it was: the handler does not write the vehicle's status.
\<close>

theorem create_booking_assignment:
  assumes loc: "length (select_active_locations db (from_location_id booking)
                          (to_location_id booking)) = 2"
    and fresh: "booking_code \<notin> set (map b_code (bookings db))"
  shows "(select_available_driver db pick = None \<longleftrightarrow>
            \<not> (\<exists>u\<in>set (users db). \<exists>v\<in>set (vehicles db).
                  v_driver_id v = Some (u_id u) \<and> u_role u = ''driver'' \<and>
                  u_status u = UserActive \<and> v_status v = Available)) \<and>
         (\<forall>d w. select_available_driver db pick = Some (d, w) \<longrightarrow>
            (\<exists>u\<in>set (users db). \<exists>v\<in>set (vehicles db).
               d = u_id u \<and> w = v_id v \<and> v_driver_id v = Some (u_id u) \<and>
               u_role u = ''driver'' \<and> u_status u = UserActive \<and> v_status v = Available) \<and>
            create_booking send_fails manager db booking user_id booking_code now pick =
              (Inr (next_rowid (bookings_seq db) (map b_id (bookings db)), booking_code,
                    ''accepted''),
               db\<lparr>bookings := bookings db @
                    [\<lparr>b_id = next_rowid (bookings_seq db) (map b_id (bookings db)),
                      b_code = booking_code, b_user_id = user_id,
                      b_from_location_id = from_location_id booking,
                      b_to_location_id = to_location_id booking,
                      b_status = Accepted, b_driver_id = Some d, b_vehicle_id = Some w,
                      b_notes = notes' booking, b_passenger_count = passenger_count booking,
                      b_created_at = now, b_updated_at = None, b_accepted_at = Some now,
                      b_started_at = None, b_completed_at = None, b_cancelled_at = None,
                      b_cancellation_reason = None, b_cancelled_by = None\<rparr>],
                  bookings_seq := next_rowid (bookings_seq db) (map b_id (bookings db)),
                  notifications := notifications db @
                    [\<lparr>n_user_id = d, n_title = ''Booking Baru'',
                      n_message = ''Booking baru #'' @ booking_code,
                      n_type = ''booking'', n_priority = ''high'', n_created_at = now\<rparr>],
                  audit_log := audit_log db @
                    [\<lparr>a_user_id = user_id, a_action = ''create'', a_entity_type = ''booking'',
                      a_entity_id = Some (next_rowid (bookings_seq db) (map b_id (bookings db))),
                      a_old_value = None, a_new_value = Some booking_code\<rparr>]\<rparr>,
               send_to_driver send_fails manager d
                 (NewBooking (next_rowid (bookings_seq db) (map b_id (bookings db)))
                    booking_code))) \<and>
         (select_available_driver db pick = None \<longrightarrow>
            create_booking send_fails manager db booking user_id booking_code now pick =
              (Inr (next_rowid (bookings_seq db) (map b_id (bookings db)), booking_code,
                    ''pending''),
               db\<lparr>bookings := bookings db @
                    [\<lparr>b_id = next_rowid (bookings_seq db) (map b_id (bookings db)),
                      b_code = booking_code, b_user_id = user_id,
                      b_from_location_id = from_location_id booking,
                      b_to_location_id = to_location_id booking,
                      b_status = Pending, b_driver_id = None, b_vehicle_id = None,
                      b_notes = notes' booking, b_passenger_count = passenger_count booking,
                      b_created_at = now, b_updated_at = None, b_accepted_at = None,
                      b_started_at = None, b_completed_at = None, b_cancelled_at = None,
                      b_cancellation_reason = None, b_cancelled_by = None\<rparr>],
                  bookings_seq := next_rowid (bookings_seq db) (map b_id (bookings db)),
                  audit_log := audit_log db @
                    [\<lparr>a_user_id = user_id, a_action = ''create'', a_entity_type = ''booking'',
                      a_entity_id = Some (next_rowid (bookings_seq db) (map b_id (bookings db))),
                      a_old_value = None, a_new_value = Some booking_code\<rparr>]\<rparr>,
               [])) \<and>
         vehicles (fst (snd (create_booking send_fails manager db booking user_id booking_code
                               now pick))) = vehicles db"
proof (intro conjI allI impI)
  have "available_pairs db = [] \<longleftrightarrow> (\<forall>d w. (d, w) \<notin> set (available_pairs db))"
    by (cases "available_pairs db") auto
  also have "\<dots> \<longleftrightarrow> \<not> (\<exists>u\<in>set (users db). \<exists>v\<in>set (vehicles db).
                  v_driver_id v = Some (u_id u) \<and> u_role u = ''driver'' \<and>
                  u_status u = UserActive \<and> v_status v = Available)"
    unfolding available_pairs_iff by blast
  finally show "select_available_driver db pick = None \<longleftrightarrow>
            \<not> (\<exists>u\<in>set (users db). \<exists>v\<in>set (vehicles db).
                  v_driver_id v = Some (u_id u) \<and> u_role u = ''driver'' \<and>
                  u_status u = UserActive \<and> v_status v = Available)"
    unfolding select_available_driver_None .
next
  fix d w assume "select_available_driver db pick = Some (d, w)"
  from select_available_driver_Some[OF this]
  show "\<exists>u\<in>set (users db). \<exists>v\<in>set (vehicles db).
               d = u_id u \<and> w = v_id v \<and> v_driver_id v = Some (u_id u) \<and>
               u_role u = ''driver'' \<and> u_status u = UserActive \<and> v_status v = Available"
    unfolding available_pairs_iff .
next
  fix d w assume "select_available_driver db pick = Some (d, w)"
  then show "create_booking send_fails manager db booking user_id booking_code now pick =
              (Inr (next_rowid (bookings_seq db) (map b_id (bookings db)), booking_code,
                    ''accepted''),
               db\<lparr>bookings := bookings db @
                    [\<lparr>b_id = next_rowid (bookings_seq db) (map b_id (bookings db)),
                      b_code = booking_code, b_user_id = user_id,
                      b_from_location_id = from_location_id booking,
                      b_to_location_id = to_location_id booking,
                      b_status = Accepted, b_driver_id = Some d, b_vehicle_id = Some w,
                      b_notes = notes' booking, b_passenger_count = passenger_count booking,
                      b_created_at = now, b_updated_at = None, b_accepted_at = Some now,
                      b_started_at = None, b_completed_at = None, b_cancelled_at = None,
                      b_cancellation_reason = None, b_cancelled_by = None\<rparr>],
                  bookings_seq := next_rowid (bookings_seq db) (map b_id (bookings db)),
                  notifications := notifications db @
                    [\<lparr>n_user_id = d, n_title = ''Booking Baru'',
                      n_message = ''Booking baru #'' @ booking_code,
                      n_type = ''booking'', n_priority = ''high'', n_created_at = now\<rparr>],
                  audit_log := audit_log db @
                    [\<lparr>a_user_id = user_id, a_action = ''create'', a_entity_type = ''booking'',
                      a_entity_id = Some (next_rowid (bookings_seq db) (map b_id (bookings db))),
                      a_old_value = None, a_new_value = Some booking_code\<rparr>]\<rparr>,
               send_to_driver send_fails manager d
                 (NewBooking (next_rowid (bookings_seq db) (map b_id (bookings db)))
                    booking_code))"
    by (rule create_booking_accepted[OF loc fresh])
next
  assume "select_available_driver db pick = None"
  then show "create_booking send_fails manager db booking user_id booking_code now pick =
              (Inr (next_rowid (bookings_seq db) (map b_id (bookings db)), booking_code,
                    ''pending''),
               db\<lparr>bookings := bookings db @
                    [\<lparr>b_id = next_rowid (bookings_seq db) (map b_id (bookings db)),
                      b_code = booking_code, b_user_id = user_id,
                      b_from_location_id = from_location_id booking,
                      b_to_location_id = to_location_id booking,
                      b_status = Pending, b_driver_id = None, b_vehicle_id = None,
                      b_notes = notes' booking, b_passenger_count = passenger_count booking,
                      b_created_at = now, b_updated_at = None, b_accepted_at = None,
                      b_started_at = None, b_completed_at = None, b_cancelled_at = None,
                      b_cancellation_reason = None, b_cancelled_by = None\<rparr>],
                  bookings_seq := next_rowid (bookings_seq db) (map b_id (bookings db)),
                  audit_log := audit_log db @
                    [\<lparr>a_user_id = user_id, a_action = ''create'', a_entity_type = ''booking'',
                      a_entity_id = Some (next_rowid (bookings_seq db) (map b_id (bookings db))),
                      a_old_value = None, a_new_value = Some booking_code\<rparr>]\<rparr>,
               [])"
    by (rule create_booking_pending[OF loc fresh])
next
  show "vehicles (fst (snd (create_booking send_fails manager db booking user_id booking_code
                               now pick))) = vehicles db"
  proof (cases "select_available_driver db pick")
    case None
    from create_booking_pending[OF loc fresh this, of send_fails manager user_id now]
    show ?thesis by simp
  next
    case (Some p)
    obtain d w where "p = (d, w)" by (cases p)
    with Some have "select_available_driver db pick = Some (d, w)" by simp
    from create_booking_accepted[OF loc fresh this, of send_fails manager user_id now]
    show ?thesis by simp
  qed
qed


lemma demo_request_locations:
  "length (select_active_locations seed_database (from_location_id demo_request)
             (to_location_id demo_request)) = 2"
  "length (select_active_locations unavailable_database (from_location_id demo_request)
             (to_location_id demo_request)) = 2"
  "length (select_active_locations booked_database (from_location_id demo_request)
             (to_location_id demo_request)) = 2"
  by (simp_all add: select_active_locations_def seed_database_def unavailable_database_def
      booked_database_def demo_request_def)

theorem create_booking_assignment_witness:
  "length (select_active_locations seed_database (from_location_id demo_request)
             (to_location_id demo_request)) = 2 \<and>
   ''SHU20240101ABCDEF'' \<notin> set (map b_code (bookings seed_database)) \<and>
   select_available_driver seed_database 0 = Some (2, 1) \<and>
   create_booking (\<lambda>_. False) demo_manager seed_database demo_request 4
       ''SHU20240101ABCDEF'' ''t0'' 0 =
     (Inr (1, ''SHU20240101ABCDEF'', ''accepted''), booked_database,
      [Delivered 11 (NewBooking 1 ''SHU20240101ABCDEF'')]) \<and>
   length (select_active_locations unavailable_database (from_location_id demo_request)
             (to_location_id demo_request)) = 2 \<and>
   ''SHU20240101ABCDEF'' \<notin> set (map b_code (bookings unavailable_database)) \<and>
   select_available_driver unavailable_database 0 = None \<and>
   create_booking (\<lambda>_. False) demo_manager unavailable_database demo_request 4
       ''SHU20240101ABCDEF'' ''t0'' 0 =
     (Inr (1, ''SHU20240101ABCDEF'', ''pending''), pending_database, [])"
proof -
  have f1: "''SHU20240101ABCDEF'' \<notin> set (map b_code (bookings seed_database))"
    and f2: "''SHU20240101ABCDEF'' \<notin> set (map b_code (bookings unavailable_database))"
    by (simp_all add: seed_database_def unavailable_database_def)
  have s1: "select_available_driver seed_database 0 = Some (2, 1)"
    and s2: "select_available_driver unavailable_database 0 = None"
    by (simp_all add: select_available_driver_def available_pairs_def seed_database_def
        unavailable_database_def)
  note a = create_booking_assignment[OF demo_request_locations(1) f1,
      of 0 "\<lambda>_. False" demo_manager 4 "''t0''",
      THEN conjunct2, THEN conjunct1, THEN spec, THEN spec, THEN mp, OF s1, THEN conjunct2]
  note p = create_booking_assignment[OF demo_request_locations(2) f2,
      of 0 "\<lambda>_. False" demo_manager 4 "''t0''",
      THEN conjunct2, THEN conjunct2, THEN conjunct1, THEN mp, OF s2]
  have a': "create_booking (\<lambda>_. False) demo_manager seed_database demo_request 4
       ''SHU20240101ABCDEF'' ''t0'' 0 =
     (Inr (1, ''SHU20240101ABCDEF'', ''accepted''), booked_database,
      [Delivered 11 (NewBooking 1 ''SHU20240101ABCDEF'')])"
    unfolding a
    by (simp add: booked_database_def seed_database_def demo_booking_def demo_request_def
        next_rowid_def send_to_driver_def demo_manager_def)
  have p': "create_booking (\<lambda>_. False) demo_manager unavailable_database demo_request 4
       ''SHU20240101ABCDEF'' ''t0'' 0 =
     (Inr (1, ''SHU20240101ABCDEF'', ''pending''), pending_database, [])"
    unfolding p
    by (simp add: pending_database_def unavailable_database_def seed_database_def
        pending_booking_def demo_booking_def demo_request_def next_rowid_def)
  show ?thesis
    by (intro conjI) (fact demo_request_locations(1) demo_request_locations(2) f1 f2 s1 s2 a' p')+
qed

theorem assigned_vehicle_stays_available:
  "fst (create_booking (\<lambda>_. False) demo_manager seed_database demo_request 4
          ''SHU20240101ABCDEF'' ''t0'' 0) = Inr (1, ''SHU20240101ABCDEF'', ''accepted'') \<and>
   map b_vehicle_id
     (bookings (fst (snd (create_booking (\<lambda>_. False) demo_manager seed_database demo_request 4
          ''SHU20240101ABCDEF'' ''t0'' 0)))) = [Some 1] \<and>
   vehicles (fst (snd (create_booking (\<lambda>_. False) demo_manager seed_database demo_request 4
          ''SHU20240101ABCDEF'' ''t0'' 0))) =
     [\<lparr>v_id = 1, v_status = Available, v_driver_id = Some 2\<rparr>,
      \<lparr>v_id = 2, v_status = Available, v_driver_id = Some 3\<rparr>]"
proof -
  have f: "''SHU20240101ABCDEF'' \<notin> set (map b_code (bookings seed_database))"
    by (simp add: seed_database_def)
  have s: "select_available_driver seed_database 0 = Some (2, 1)"
    by (simp add: select_available_driver_def available_pairs_def seed_database_def)
  show ?thesis
    unfolding create_booking_accepted[OF demo_request_locations(1) f s]
    by (simp add: seed_database_def next_rowid_def)
qed

text \<open>
  C6 (amended). The handler generates one code and inserts once. When that code is already
  in use, the insert violates \<^verbatim>\<open>UNIQUE\<close> on \<^verbatim>\<open>bookings.booking_code\<close>: the storage error
  leaves the handler, the database is unchanged and nothing is sent. No second code is
  tried.
\<close>

theorem create_booking_code_collision:
  assumes "length (select_active_locations db (from_location_id booking)
                     (to_location_id booking)) = 2"
    and "booking_code \<in> set (map b_code (bookings db))"
  shows "create_booking send_fails manager db booking user_id booking_code now pick =
           (Inl (IntegrityError ''UNIQUE constraint failed: bookings.booking_code''), db, [])"
  using assms by (simp add: create_booking_def)

theorem create_booking_code_collision_witness:
  "length (select_active_locations booked_database (from_location_id demo_request)
             (to_location_id demo_request)) = 2 \<and>
   ''SHU20240101ABCDEF'' \<in> set (map b_code (bookings booked_database)) \<and>
   create_booking (\<lambda>_. False) demo_manager booked_database demo_request 4
       ''SHU20240101ABCDEF'' ''t9'' 0 =
     (Inl (IntegrityError ''UNIQUE constraint failed: bookings.booking_code''),
      booked_database, [])"
proof -
  have c: "''SHU20240101ABCDEF'' \<in> set (map b_code (bookings booked_database))"
    by (simp add: booked_database_def demo_booking_def)
  note r = create_booking_code_collision[OF demo_request_locations(3) c,
      of "\<lambda>_. False" demo_manager 4 "''t9''" 0]
  show ?thesis
    by (intro conjI) (fact demo_request_locations(3) c r)+
qed

theorem code_collision_not_retried:
  "fst (create_booking (\<lambda>_. False) demo_manager booked_database demo_request 4
          ''SHU20240101ABCDEF'' ''t9'' 1) =
     Inl (IntegrityError ''UNIQUE constraint failed: bookings.booking_code'') \<and>
   bookings (fst (snd (create_booking (\<lambda>_. False) demo_manager booked_database demo_request 4
          ''SHU20240101ABCDEF'' ''t9'' 1))) = [demo_booking]"
  using demo_request_locations(3)
  by (simp add: create_booking_def booked_database_def demo_booking_def)

section \<open>Driver and vehicle fields of a booking\<close>

lemma bookings_after_create:
  "bookings (fst (snd (create_booking send_fails manager db booking user_id booking_code now pick))) =
     bookings db \<or>
   (\<exists>new. bookings (fst (snd (create_booking send_fails manager db booking user_id booking_code
                                  now pick))) = bookings db @ [new] \<and>
          b_id new \<notin> set (map b_id (bookings db)) \<and>
          (b_status new = Pending \<and> b_driver_id new = None \<and> b_vehicle_id new = None \<or>
           (\<exists>d w. b_status new = Accepted \<and> b_driver_id new = Some d \<and>
                  b_vehicle_id new = Some w)))"
proof (cases "length (select_active_locations db (from_location_id booking)
                        (to_location_id booking)) = 2 \<and>
              booking_code \<notin> set (map b_code (bookings db))")
  case False
  then show ?thesis by (auto simp: create_booking_def)
next
  case True
  then have loc: "length (select_active_locations db (from_location_id booking)
                        (to_location_id booking)) = 2"
    and fresh: "booking_code \<notin> set (map b_code (bookings db))"
    by simp_all
  note nid = next_rowid_fresh[of "bookings_seq db" "map b_id (bookings db)"]
  show ?thesis
  proof (cases "select_available_driver db pick")
    case None
    from create_booking_pending[OF loc fresh this, of send_fails manager user_id now] nid
    show ?thesis by simp
  next
    case (Some p)
    obtain d w where "p = (d, w)" by (cases p)
    with Some have "select_available_driver db pick = Some (d, w)" by simp
    from create_booking_accepted[OF loc fresh this, of send_fails manager user_id now] nid
    show ?thesis by simp
  qed
qed

lemma bookings_after_cancel:
  "bookings (snd (cancel_booking db booking_id user_id now)) = bookings db \<or>
   bookings (snd (cancel_booking db booking_id user_id now)) =
     map (\<lambda>b. if b_id b = booking_id
               then b\<lparr>b_status := Cancelled, b_cancelled_at := Some now,
                      b_cancelled_by := Some user_id,
                      b_cancellation_reason := Some ''Cancelled by user''\<rparr>
               else b) (bookings db)"
proof (cases "find (\<lambda>b. b_id b = booking_id \<and> b_user_id b = user_id) (bookings db)")
  case None
  then show ?thesis by (simp add: cancel_booking_not_found)
next
  case (Some b)
  then show ?thesis by (simp add: cancel_booking_found)
qed

lemma bookings_after_update_status:
  "bookings (snd (update_booking_status db booking_id status user_id now)) = bookings db \<or>
   (\<exists>b g. find (\<lambda>b. b_id b = booking_id \<and> b_driver_id b = Some user_id) (bookings db) = Some b \<and>
      (\<forall>x. b_id (g x) = b_id x \<and> b_driver_id (g x) = b_driver_id x \<and>
           b_vehicle_id (g x) = b_vehicle_id x \<and>
           b_status (g x) \<in> {DriverArriving, Ongoing, Completed}) \<and>
      bookings (snd (update_booking_status db booking_id status user_id now)) =
        map (\<lambda>x. if b_id x = booking_id then g x else x) (bookings db))"
proof (cases "find (\<lambda>b. b_id b = booking_id \<and> b_driver_id b = Some user_id) (bookings db)")
  case None
  then show ?thesis by (simp add: update_booking_status_not_found)
next
  case (Some b)
  consider "status = ''driver_arriving''" | "status = ''ongoing''" | "status = ''completed''"
    | "status \<noteq> ''driver_arriving''" "status \<noteq> ''ongoing''" "status \<noteq> ''completed''"
    by blast
  then show ?thesis
  proof cases
    case 1
    have "bookings (snd (update_booking_status db booking_id status user_id now)) =
            map (\<lambda>x. if b_id x = booking_id
                      then x\<lparr>b_status := DriverArriving, b_updated_at := Some now\<rparr> else x)
              (bookings db)"
      unfolding 1 update_booking_status_arriving[OF Some] by simp
    with Some show ?thesis
      by (intro disjI2 exI[of _ b]
          exI[of _ "\<lambda>x. x\<lparr>b_status := DriverArriving, b_updated_at := Some now\<rparr>"]) simp
  next
    case 2
    have "bookings (snd (update_booking_status db booking_id status user_id now)) = bookings db \<or>
          bookings (snd (update_booking_status db booking_id status user_id now)) =
            map (\<lambda>x. if b_id x = booking_id
                      then x\<lparr>b_status := Ongoing, b_started_at := Some now,
                             b_updated_at := Some now\<rparr> else x)
              (bookings db)"
      unfolding 2 update_booking_status_ongoing[OF Some]
      by (simp add: Let_def split: option.splits)
    then show ?thesis
    proof
      assume "bookings (snd (update_booking_status db booking_id status user_id now)) =
                bookings db"
      then show ?thesis by (rule disjI1)
    next
      assume "bookings (snd (update_booking_status db booking_id status user_id now)) =
            map (\<lambda>x. if b_id x = booking_id
                      then x\<lparr>b_status := Ongoing, b_started_at := Some now,
                             b_updated_at := Some now\<rparr> else x)
              (bookings db)"
      with Some show ?thesis
        by (intro disjI2 exI[of _ b]
            exI[of _ "\<lambda>x. x\<lparr>b_status := Ongoing, b_started_at := Some now,
                             b_updated_at := Some now\<rparr>"]) simp
    qed
  next
    case 3
    have "bookings (snd (update_booking_status db booking_id status user_id now)) =
            map (\<lambda>x. if b_id x = booking_id
                      then x\<lparr>b_status := Completed, b_completed_at := Some now,
                             b_updated_at := Some now\<rparr> else x)
              (bookings db)"
      unfolding 3 update_booking_status_completed[OF Some] by simp
    with Some show ?thesis
      by (intro disjI2 exI[of _ b]
          exI[of _ "\<lambda>x. x\<lparr>b_status := Completed, b_completed_at := Some now,
                             b_updated_at := Some now\<rparr>"]) simp
  next
    case 4
    from update_booking_status_invalid[OF Some 4, of now] show ?thesis by simp
  qed
qed


lemma map_key_update:
  assumes "\<And>x. f (g x) = f x"
  shows "map f (map (\<lambda>x. if c x then g x else x) xs) = map f xs"
  by (induction xs) (simp_all add: assms)

text \<open>
  C4 (amended). On a bookings table with unique ids in which, for every booking, driver and
  vehicle are both null or both non-null and, unless the booking is cancelled, they are
  non-null exactly when the status is one of \<^verbatim>\<open>accepted\<close>, \<^verbatim>\<open>driver_arriving\<close>, \<^verbatim>\<open>ongoing\<close>,
  \<^verbatim>\<open>completed\<close>: the same holds after \<^verbatim>\<open>create_booking\<close>, after \<^verbatim>\<open>cancel_booking\<close> and after
  \<^verbatim>\<open>update_booking_status\<close>, whatever their arguments and outcome. \<^verbatim>\<open>cancel_booking\<close> writes
  neither field: every booking keeps its driver and vehicle, and a booking of the acting
  rider cancelled from \<^verbatim>\<open>accepted\<close> is stored cancelled with the non-null driver and vehicle
  it had.
\<close>

theorem assignment_fields_preserved:
  assumes pk: "distinct (map b_id (bookings db))"
    and inv: "\<forall>b\<in>set (bookings db).
            (b_driver_id b = None \<longleftrightarrow> b_vehicle_id b = None) \<and>
            (b_status b \<noteq> Cancelled \<longrightarrow>
               (b_driver_id b \<noteq> None \<and> b_vehicle_id b \<noteq> None \<longleftrightarrow>
                b_status b \<in> {Accepted, DriverArriving, Ongoing, Completed}))"
    and step: "db' = fst (snd (create_booking send_fails manager db booking rider booking_code
                                 now pick)) \<or>
               db' = snd (cancel_booking db booking_id rider now) \<or>
               db' = snd (update_booking_status db booking_id status driver now)"
  shows "distinct (map b_id (bookings db')) \<and>
         (\<forall>b\<in>set (bookings db').
            (b_driver_id b = None \<longleftrightarrow> b_vehicle_id b = None) \<and>
            (b_status b \<noteq> Cancelled \<longrightarrow>
               (b_driver_id b \<noteq> None \<and> b_vehicle_id b \<noteq> None \<longleftrightarrow>
                b_status b \<in> {Accepted, DriverArriving, Ongoing, Completed}))) \<and>
         map b_driver_id (bookings (snd (cancel_booking db booking_id rider now))) =
           map b_driver_id (bookings db) \<and>
         map b_vehicle_id (bookings (snd (cancel_booking db booking_id rider now))) =
           map b_vehicle_id (bookings db) \<and>
         (\<forall>b\<in>set (bookings db).
            b_id b = booking_id \<and> b_user_id b = rider \<and> b_status b = Accepted \<longrightarrow>
            b\<lparr>b_status := Cancelled, b_cancelled_at := Some now, b_cancelled_by := Some rider,
              b_cancellation_reason := Some ''Cancelled by user''\<rparr>
              \<in> set (bookings (snd (cancel_booking db booking_id rider now))) \<and>
            b_driver_id b \<noteq> None \<and> b_vehicle_id b \<noteq> None)"
proof (intro conjI)
  define P where "P = (\<lambda>b::booking. (b_driver_id b = None \<longleftrightarrow> b_vehicle_id b = None) \<and>
            (b_status b \<noteq> Cancelled \<longrightarrow>
               (b_driver_id b \<noteq> None \<and> b_vehicle_id b \<noteq> None \<longleftrightarrow>
                b_status b \<in> {Accepted, DriverArriving, Ongoing, Completed})))"
  from inv have inv: "\<forall>b\<in>set (bookings db). P b"
    unfolding P_def .
  let ?c = "\<lambda>b. b\<lparr>b_status := Cancelled, b_cancelled_at := Some now, b_cancelled_by := Some rider,
                     b_cancellation_reason := Some ''Cancelled by user''\<rparr>"
  let ?cancelled = "map (\<lambda>b. if b_id b = booking_id then ?c b else b) (bookings db)"
  have pc: "\<And>b. P b \<Longrightarrow> P (?c b)"
    by (simp add: P_def)
  have ids: "map b_id ?cancelled = map b_id (bookings db)"
    by (rule map_key_update) simp
  note after_cancel = bookings_after_cancel[of db booking_id rider now]
  from step consider
      (create) "db' = fst (snd (create_booking send_fails manager db booking rider booking_code
                                  now pick))"
    | (cancel) "db' = snd (cancel_booking db booking_id rider now)"
    | (update) "db' = snd (update_booking_status db booking_id status driver now)"
    by blast
  then have "distinct (map b_id (bookings db')) \<and> (\<forall>b\<in>set (bookings db'). P b)"
  proof cases
    case create
    from bookings_after_create[of send_fails manager db booking rider booking_code now pick]
    show ?thesis
    proof
      assume "bookings (fst (snd (create_booking send_fails manager db booking rider booking_code
                                    now pick))) = bookings db"
      with create pk inv show ?thesis by simp
    next
      assume "\<exists>new. bookings (fst (snd (create_booking send_fails manager db booking rider
                                booking_code now pick))) = bookings db @ [new] \<and>
          b_id new \<notin> set (map b_id (bookings db)) \<and>
          (b_status new = Pending \<and> b_driver_id new = None \<and> b_vehicle_id new = None \<or>
           (\<exists>d w. b_status new = Accepted \<and> b_driver_id new = Some d \<and>
                  b_vehicle_id new = Some w))"
      then obtain new where n: "bookings db' = bookings db @ [new]"
        "b_id new \<notin> set (map b_id (bookings db))"
        "b_status new = Pending \<and> b_driver_id new = None \<and> b_vehicle_id new = None \<or>
           (\<exists>d w. b_status new = Accepted \<and> b_driver_id new = Some d \<and>
                  b_vehicle_id new = Some w)"
        unfolding create by blast
      from n(3) have "P new" unfolding P_def by auto
      with n(1,2) pk inv show ?thesis by auto
    qed
  next
    case cancel
    from after_cancel show ?thesis
    proof
      assume "bookings (snd (cancel_booking db booking_id rider now)) = bookings db"
      with cancel pk inv show ?thesis by simp
    next
      assume a: "bookings (snd (cancel_booking db booking_id rider now)) = ?cancelled"
      have q: "\<forall>b\<in>set ?cancelled. P b" using inv pc by auto
      have d: "distinct (map b_id ?cancelled)" by (simp only: ids pk)
      show ?thesis unfolding cancel a using d q by (rule conjI)
    qed
  next
    case update
    from bookings_after_update_status[of db booking_id status driver now] show ?thesis
    proof
      assume "bookings (snd (update_booking_status db booking_id status driver now)) = bookings db"
      with update pk inv show ?thesis by simp
    next
      assume "\<exists>b g. find (\<lambda>b. b_id b = booking_id \<and> b_driver_id b = Some driver) (bookings db) =
                Some b \<and>
        (\<forall>x. b_id (g x) = b_id x \<and> b_driver_id (g x) = b_driver_id x \<and>
             b_vehicle_id (g x) = b_vehicle_id x \<and>
             b_status (g x) \<in> {DriverArriving, Ongoing, Completed}) \<and>
        bookings (snd (update_booking_status db booking_id status driver now)) =
          map (\<lambda>x. if b_id x = booking_id then g x else x) (bookings db)"
      then obtain b g where
        f: "find (\<lambda>b. b_id b = booking_id \<and> b_driver_id b = Some driver) (bookings db) = Some b"
        and g: "\<And>x. b_id (g x) = b_id x" "\<And>x. b_driver_id (g x) = b_driver_id x"
          "\<And>x. b_vehicle_id (g x) = b_vehicle_id x"
          "\<And>x. b_status (g x) \<in> {DriverArriving, Ongoing, Completed}"
        and m: "bookings db' = map (\<lambda>x. if b_id x = booking_id then g x else x) (bookings db)"
        unfolding update by blast
      from f have b: "b \<in> set (bookings db)" "b_id b = booking_id" "b_driver_id b = Some driver"
        by (auto simp: find_Some_iff)
      from inv b have bv: "b_vehicle_id b \<noteq> None" unfolding P_def by auto
      have m': "bookings db' = map (\<lambda>x. if x = b then g b else x) (bookings db)"
        unfolding m by (rule update_by_key[OF pk b(1,2)])
      have "map b_id (bookings db') = map b_id (bookings db)"
        unfolding m by (rule map_key_update) (rule g(1))
      moreover have "P (g b)"
        unfolding P_def using g(4)[of b] b(3) bv by (auto simp: g(2,3))
      then have "\<forall>x\<in>set (bookings db'). P x"
        unfolding m' using inv by auto
      ultimately show ?thesis using pk by (simp only: simp_thms)
    qed
  qed
  then show "distinct (map b_id (bookings db'))"
    and "\<forall>b\<in>set (bookings db').
            (b_driver_id b = None \<longleftrightarrow> b_vehicle_id b = None) \<and>
            (b_status b \<noteq> Cancelled \<longrightarrow>
               (b_driver_id b \<noteq> None \<and> b_vehicle_id b \<noteq> None \<longleftrightarrow>
                b_status b \<in> {Accepted, DriverArriving, Ongoing, Completed}))"
    unfolding P_def by (rule conjunct1, rule conjunct2)
  from after_cancel
  show "map b_driver_id (bookings (snd (cancel_booking db booking_id rider now))) =
          map b_driver_id (bookings db)"
  proof
    assume "bookings (snd (cancel_booking db booking_id rider now)) = bookings db"
    then show ?thesis by (simp only:)
  next
    assume a: "bookings (snd (cancel_booking db booking_id rider now)) = ?cancelled"
    show ?thesis unfolding a by (rule map_key_update) simp
  qed
  from after_cancel
  show "map b_vehicle_id (bookings (snd (cancel_booking db booking_id rider now))) =
          map b_vehicle_id (bookings db)"
  proof
    assume "bookings (snd (cancel_booking db booking_id rider now)) = bookings db"
    then show ?thesis by (simp only:)
  next
    assume a: "bookings (snd (cancel_booking db booking_id rider now)) = ?cancelled"
    show ?thesis unfolding a by (rule map_key_update) simp
  qed
  show "\<forall>b\<in>set (bookings db).
            b_id b = booking_id \<and> b_user_id b = rider \<and> b_status b = Accepted \<longrightarrow>
            ?c b \<in> set (bookings (snd (cancel_booking db booking_id rider now))) \<and>
            b_driver_id b \<noteq> None \<and> b_vehicle_id b \<noteq> None"
  proof (intro ballI impI)
    fix b assume b: "b \<in> set (bookings db)"
      and h: "b_id b = booking_id \<and> b_user_id b = rider \<and> b_status b = Accepted"
    from find_by_key[OF pk b, of booking_id "\<lambda>y. b_user_id y = rider"] h
    have "find (\<lambda>y. b_id y = booking_id \<and> b_user_id y = rider) (bookings db) = Some b"
      by simp
    from cancel_booking_found[OF this, of now] h
    have "bookings (snd (cancel_booking db booking_id rider now)) = ?cancelled"
      by simp
    moreover from b h have "?c b \<in> set ?cancelled"
      by (auto simp: image_iff intro!: bexI[of _ b])
    moreover from inv b h have "b_driver_id b \<noteq> None \<and> b_vehicle_id b \<noteq> None"
      unfolding P_def by auto
    ultimately show "?c b \<in> set (bookings (snd (cancel_booking db booking_id rider now))) \<and>
            b_driver_id b \<noteq> None \<and> b_vehicle_id b \<noteq> None"
      by simp
  qed
qed


theorem cancelled_booking_keeps_driver:
  "bookings booked_database = [demo_booking] \<and> b_status demo_booking = Accepted \<and>
   fst (cancel_booking booked_database 1 4 ''t1'') = Inr ''Booking cancelled'' \<and>
   map b_status (bookings (snd (cancel_booking booked_database 1 4 ''t1''))) = [Cancelled] \<and>
   map b_driver_id (bookings (snd (cancel_booking booked_database 1 4 ''t1''))) = [Some 2] \<and>
   map b_vehicle_id (bookings (snd (cancel_booking booked_database 1 4 ''t1''))) = [Some 1]"
  by (simp add: cancel_booking_def booked_database_def demo_booking_def update_bookings_def
      log_audit_def)

theorem assignment_fields_preserved_witness:
  "distinct (map b_id (bookings booked_database)) \<and>
   bookings booked_database = [demo_booking] \<and>
   b_id demo_booking = 1 \<and> b_user_id demo_booking = 4 \<and> b_status demo_booking = Accepted \<and>
   b_driver_id demo_booking = Some 2 \<and> b_vehicle_id demo_booking = Some 1 \<and>
   distinct (map b_id (bookings (snd (cancel_booking booked_database 1 4 ''t1'')))) \<and>
   map b_driver_id (bookings (snd (cancel_booking booked_database 1 4 ''t1''))) = [Some 2] \<and>
   map b_vehicle_id (bookings (snd (cancel_booking booked_database 1 4 ''t1''))) = [Some 1] \<and>
   demo_booking\<lparr>b_status := Cancelled, b_cancelled_at := Some ''t1'', b_cancelled_by := Some 4,
                b_cancellation_reason := Some ''Cancelled by user''\<rparr>
     \<in> set (bookings (snd (cancel_booking booked_database 1 4 ''t1'')))"
proof -
  have bs: "bookings booked_database = [demo_booking]"
    by (simp add: booked_database_def)
  have d: "b_id demo_booking = 1" "b_user_id demo_booking = 4" "b_status demo_booking = Accepted"
    "b_driver_id demo_booking = Some 2" "b_vehicle_id demo_booking = Some 1"
    by (simp_all add: demo_booking_def)
  have pk: "distinct (map b_id (bookings booked_database))"
    unfolding bs by simp
  have inv: "\<forall>b\<in>set (bookings booked_database).
            (b_driver_id b = None \<longleftrightarrow> b_vehicle_id b = None) \<and>
            (b_status b \<noteq> Cancelled \<longrightarrow>
               (b_driver_id b \<noteq> None \<and> b_vehicle_id b \<noteq> None \<longleftrightarrow>
                b_status b \<in> {Accepted, DriverArriving, Ongoing, Completed}))"
    unfolding bs using d by simp
  have step: "snd (cancel_booking booked_database 1 4 ''t1'') =
                fst (snd (create_booking (\<lambda>_. False) demo_manager booked_database demo_request 4
                            ''SHU20240101BBBBBB'' ''t1'' 0)) \<or>
              snd (cancel_booking booked_database 1 4 ''t1'') =
                snd (cancel_booking booked_database 1 4 ''t1'') \<or>
              snd (cancel_booking booked_database 1 4 ''t1'') =
                snd (update_booking_status booked_database 1 ''ongoing'' 2 ''t1'')"
    by (rule disjI2, rule disjI1, rule refl)
  note w = assignment_fields_preserved[OF pk inv step]
  have m: "demo_booking \<in> set (bookings booked_database)"
    unfolding bs by simp
  note c = w[THEN conjunct2, THEN conjunct2, THEN conjunct2, THEN conjunct2, THEN bspec, OF m,
      THEN mp, OF conjI[OF d(1) conjI[OF d(2) d(3)]], THEN conjunct1]
  have dr: "map b_driver_id (bookings (snd (cancel_booking booked_database 1 4 ''t1''))) =
              [Some 2]"
    unfolding w[THEN conjunct2, THEN conjunct2, THEN conjunct1] bs using d by simp
  have ve: "map b_vehicle_id (bookings (snd (cancel_booking booked_database 1 4 ''t1''))) =
              [Some 1]"
    unfolding w[THEN conjunct2, THEN conjunct2, THEN conjunct2, THEN conjunct1] bs using d by simp
  show ?thesis
    by (intro conjI) (fact pk bs d w[THEN conjunct1] dr ve c)+
qed

end
